theory Spec2Isabelle
  imports Main "HOL-Library.Sublist" "HOL-Library.Multiset"
begin

section \<open>Python strings\<close>

text \<open>
  A Python \<open>str\<close> is a sequence of Unicode code points, so a character is a natural
  number and \<open>len\<close> is \<open>length\<close>. String literals of the program are written with
  \<open>lit\<close>, which maps the ASCII characters of a HOL string to their code points.
\<close>

type_synonym pychar = nat
type_synonym pystr = "pychar list"

definition lit :: "string \<Rightarrow> pystr" where
  "lit s = map of_char s"

text \<open>
  The Unicode character database is not part of the program. Its three tables that the
  program consults (\<open>str.isalnum\<close>, \<open>str.isspace\<close>, \<open>str.upper\<close>) are a parameter for
  the code points from 128 on; on ASCII the tables are written out.
\<close>

record unicode_db =
  uni_isalnum :: "pychar \<Rightarrow> bool"
  uni_isspace :: "pychar \<Rightarrow> bool"
  uni_upper :: "pychar \<Rightarrow> pystr"

definition ascii_isalnum :: "pychar \<Rightarrow> bool" where
  "ascii_isalnum c = ((48 \<le> c \<and> c \<le> 57) \<or> (65 \<le> c \<and> c \<le> 90) \<or> (97 \<le> c \<and> c \<le> 122))"

definition ascii_isspace :: "pychar \<Rightarrow> bool" where
  "ascii_isspace c = ((9 \<le> c \<and> c \<le> 13) \<or> (28 \<le> c \<and> c \<le> 32))"

definition isalnum :: "unicode_db \<Rightarrow> pychar \<Rightarrow> bool" where
  "isalnum U c = (if c < 128 then ascii_isalnum c else uni_isalnum U c)"

definition isspace :: "unicode_db \<Rightarrow> pychar \<Rightarrow> bool" where
  "isspace U c = (if c < 128 then ascii_isspace c else uni_isspace U c)"

definition upper_char :: "unicode_db \<Rightarrow> pychar \<Rightarrow> pystr" where
  "upper_char U c =
     (if c < 128 then (if 97 \<le> c \<and> c \<le> 122 then [c - 32] else [c]) else uni_upper U c)"

definition upper :: "unicode_db \<Rightarrow> pystr \<Rightarrow> pystr" where
  "upper U s = concat (map (upper_char U) s)"

text \<open>\<open>sep.join(xs)\<close>\<close>

fun join :: "pystr \<Rightarrow> pystr list \<Rightarrow> pystr" where
  "join sep [] = []"
| "join sep [x] = x"
| "join sep (x # y # ys) = x @ sep @ join sep (y # ys)"

text \<open>A database that knows no character beyond ASCII, for running the model.\<close>

definition ascii_db :: unicode_db where
  "ascii_db = \<lparr>uni_isalnum = (\<lambda>c. False), uni_isspace = (\<lambda>c. False), uni_upper = (\<lambda>c. [c])\<rparr>"


section \<open>Text cleaning\<close>

text \<open>
  \<^verbatim>\<open>def clean_text(raw_text):
    return re.sub(r"[^\w\s.,;:!?()-]", "", raw_text)\<close>

  The pattern is one negated character class. Its members are the class escapes
  \<open>\w\<close> and \<open>\s\<close> and the literal characters \<open>. , ; : ! ? ( )\<close> and \<open>-\<close> (a hyphen
  in last position stands for itself). On a \<open>str\<close> pattern \<open>\w\<close> matches the
  alphanumeric characters and the underscore, \<open>\s\<close> the whitespace characters.
\<close>

datatype class_item = Word_class | Space_class | Literal pychar

fun item_matches :: "unicode_db \<Rightarrow> class_item \<Rightarrow> pychar \<Rightarrow> bool" where
  "item_matches U Word_class c = (isalnum U c \<or> c = of_char CHR ''_'')"
| "item_matches U Space_class c = isspace U c"
| "item_matches U (Literal d) c = (c = d)"

definition class_matches :: "unicode_db \<Rightarrow> class_item list \<Rightarrow> pychar \<Rightarrow> bool" where
  "class_matches U items c = list_ex (\<lambda>i. item_matches U i c) items"

definition negated_class_matches :: "unicode_db \<Rightarrow> class_item list \<Rightarrow> pychar \<Rightarrow> bool" where
  "negated_class_matches U items c = (\<not> class_matches U items c)"

text \<open>
  \<open>re.sub\<close> for a pattern that matches exactly one character: scanning from the left,
  every matching character is replaced by the replacement, every other one is copied.
\<close>

fun re_sub_char :: "(pychar \<Rightarrow> bool) \<Rightarrow> pystr \<Rightarrow> pystr \<Rightarrow> pystr" where
  "re_sub_char m repl [] = []"
| "re_sub_char m repl (c # cs) =
     (if m c then repl @ re_sub_char m repl cs else c # re_sub_char m repl cs)"

definition clean_pattern :: "class_item list" where
  "clean_pattern = Word_class # Space_class # map Literal (lit ''.,;:!?()-'')"

definition clean_text :: "unicode_db \<Rightarrow> pystr \<Rightarrow> pystr" where
  "clean_text U raw_text = re_sub_char (negated_class_matches U clean_pattern) [] raw_text"

text \<open>
  The allowed set in the words of the specification: letters, digits, underscore,
  whitespace and the nine punctuation marks.
\<close>

definition letter_or_digit :: "unicode_db \<Rightarrow> pychar \<Rightarrow> bool" where
  "letter_or_digit U c = isalnum U c"

definition punctuation_marks :: "pychar set" where
  "punctuation_marks = {of_char CHR ''.'', of_char CHR '','', of_char CHR '';'', of_char CHR '':'',
     of_char CHR ''!'', of_char CHR ''?'', of_char CHR ''('', of_char CHR '')'', of_char CHR ''-''}"

definition in_allowed_set :: "unicode_db \<Rightarrow> pychar \<Rightarrow> bool" where
  "in_allowed_set U c =
     (letter_or_digit U c \<or> c = of_char CHR ''_'' \<or> isspace U c \<or> c \<in> punctuation_marks)"


section \<open>PDF extraction\<close>

text \<open>
  \<^verbatim>\<open>def extract_text(pdf_file):
    pdf_doc = fitz.open(stream=pdf_file.read(), filetype="pdf")
    text = ""
    for page in pdf_doc:
        text += page.get_text("text")
    pdf_doc.close()
    return clean_text(text)\<close>

  The PDF parser is an external library; the model starts from the texts of the pages.
\<close>

definition extract_text :: "unicode_db \<Rightarrow> pystr list \<Rightarrow> pystr" where
  "extract_text U pages = clean_text U (foldl (\<lambda>text page. text @ page) [] pages)"


section \<open>External services and libraries\<close>

text \<open>
  The embedding service, the completion service, the distance of the vector store and
  the separator that the document chain puts between retrieved texts are not code of the
  program: they are parameters. A call that raises is a call that returns \<open>None\<close>.
  Vectors are of any type \<open>'v\<close>, distances of any linearly ordered type \<open>'d\<close>.
\<close>

record ('v, 'd) externals =
  embed :: "pystr \<Rightarrow> 'v option"
  distance :: "'v \<Rightarrow> 'v \<Rightarrow> 'd"
  document_separator :: pystr
  complete :: "pystr \<Rightarrow> pystr option"

datatype error = EmbeddingError | AnswerError

type_synonym 'v index = "(pystr \<times> 'v) list"


section \<open>Chunking and indexing\<close>

text \<open>
  \<^verbatim>\<open>def create_faiss_db(text):
    splitter = RecursiveCharacterTextSplitter(chunk_size=1000, chunk_overlap=200)
    chunks = splitter.split_text(text)
    docs = [Document(page_content=c) for c in chunks]
    embeddings = OpenAIEmbeddings(model="text-embedding-3-small")
    db = FAISS.from_documents(docs, embeddings)
    return db, len(chunks)\<close>
\<close>

definition chunk_size :: nat where
  "chunk_size = 1000"

definition chunk_overlap :: nat where
  "chunk_overlap = 200"

text \<open>
  Modelled from the spec: the splitter \<open>RecursiveCharacterTextSplitter.split_text\<close> is a
  library class whose code is not in the repository. The specification (4.2) gives its
  policy: chunks of at most \<open>chunk_size\<close> characters, an overlap of \<open>chunk_overlap\<close>
  characters between consecutive chunks, a cut at a natural boundary (paragraph, then
  sentence, then word) when one is found within the size budget and a hard cut at the
  budget only when none is found; a text within the budget is one chunk, the empty text
  gives none.
  The search for a natural boundary is the parameter \<open>boundary\<close>: applied to the next
  \<open>chunk_size\<close> characters it returns the position of the preferred cut, if there is
  one. Every position from 1 to \<open>chunk_size\<close> is within the budget and is taken as it is
  found. The next chunk starts \<open>chunk_overlap\<close> characters before the cut. The
  specification does not say where it starts when the chunk is not longer than the
  overlap, so that starting \<open>chunk_overlap\<close> characters back would not advance in the
  text: the model then starts the next chunk at the cut.
\<close>

definition cut_point :: "(pystr \<Rightarrow> nat option) \<Rightarrow> pystr \<Rightarrow> nat" where
  "cut_point boundary t =
     (case boundary (take chunk_size t) of
        None \<Rightarrow> chunk_size
      | Some c \<Rightarrow> if 0 < c \<and> c \<le> chunk_size then c else chunk_size)"

definition next_start :: "nat \<Rightarrow> nat" where
  "next_start c = (if chunk_overlap < c then c - chunk_overlap else c)"

lemma cut_point_bounds:
  "0 < cut_point boundary t \<and> cut_point boundary t \<le> chunk_size"
  by (simp add: cut_point_def chunk_size_def split: option.split)

lemma next_start_bounds: "0 < c \<Longrightarrow> 0 < next_start c \<and> next_start c \<le> c"
  by (simp add: next_start_def)

function split_text :: "(pystr \<Rightarrow> nat option) \<Rightarrow> pystr \<Rightarrow> pystr list" where
  "split_text boundary t =
     (if t = [] then []
      else if length t \<le> chunk_size then [t]
      else take (cut_point boundary t) t
             # split_text boundary (drop (next_start (cut_point boundary t)) t))"
  by pat_completeness auto
termination
proof (relation "measure (\<lambda>(boundary, t). length t)")
  show "wf (measure (\<lambda>(boundary :: pystr \<Rightarrow> nat option, t :: pystr). length t))"
    by simp
next
  fix boundary :: "pystr \<Rightarrow> nat option" and t :: pystr
  assume "t \<noteq> []" and "\<not> length t \<le> chunk_size"
  moreover have "0 < next_start (cut_point boundary t)"
    by (simp add: cut_point_bounds next_start_bounds)
  ultimately show "((boundary, drop (next_start (cut_point boundary t)) t), (boundary, t))
      \<in> measure (\<lambda>(boundary, t). length t)"
    by simp
qed

declare split_text.simps [simp del]






text \<open>
  Modelled from the spec: the indexer \<open>FAISS.from_documents\<close> and the search of the
  vector store are library code that is not in the repository. The specification (4.3,
  4.4) gives them: every chunk is embedded by the embedding service and stored with its
  vector; if an embedding call fails the whole indexing fails with \<open>EmbeddingError\<close>;
  the search returns the \<open>k\<close> entries nearest to the query vector by distance.
\<close>

fun embed_documents :: "(pystr \<Rightarrow> 'v option) \<Rightarrow> pystr list \<Rightarrow> 'v list option" where
  "embed_documents e [] = Some []"
| "embed_documents e (c # cs) =
     (case e c of
        None \<Rightarrow> None
      | Some v \<Rightarrow> (case embed_documents e cs of None \<Rightarrow> None | Some vs \<Rightarrow> Some (v # vs)))"

definition from_documents :: "('v, 'd) externals \<Rightarrow> pystr list \<Rightarrow> error + 'v index" where
  "from_documents X docs =
     (case embed_documents (embed X) docs of
        None \<Rightarrow> Inl EmbeddingError
      | Some vs \<Rightarrow> Inr (zip docs vs))"

definition nearest_first :: "('v \<Rightarrow> 'v \<Rightarrow> 'd::linorder) \<Rightarrow> 'v \<Rightarrow> 'v index \<Rightarrow> 'v index" where
  "nearest_first dist qv db = sort_key (\<lambda>entry. dist qv (snd entry)) db"

definition similarity_search ::
  "('v \<Rightarrow> 'v \<Rightarrow> 'd::linorder) \<Rightarrow> 'v index \<Rightarrow> 'v \<Rightarrow> nat \<Rightarrow> pystr list" where
  "similarity_search dist db qv k = map fst (take k (nearest_first dist qv db))"

definition create_faiss_db ::
  "('v, 'd) externals \<Rightarrow> (pystr \<Rightarrow> nat option) \<Rightarrow> pystr \<Rightarrow> error + ('v index \<times> nat)" where
  "create_faiss_db X boundary text =
     (let chunks = split_text boundary text;
          docs = chunks
      in case from_documents X docs of
           Inl e \<Rightarrow> Inl e
         | Inr db \<Rightarrow> Inr (db, length chunks))"


section \<open>The question-answering chain\<close>

text \<open>
  \<^verbatim>\<open>def create_qa_chain(db):
    retriever = db.as_retriever(search_kwargs={"k": 5})
    llm = ChatOpenAI(model="gpt-4o-mini", temperature=0)
    prompt_template = """ ... {context} ... {question} ... """
    prompt = PromptTemplate(input_variables=["context", "question"], template=prompt_template)
    return RetrievalQA.from_chain_type(llm=llm, retriever=retriever,
        chain_type="stuff", chain_type_kwargs={"prompt": prompt})\<close>

  The template is the program's own text; filling its two fields is written as a
  function of the two values.
\<close>

definition search_k :: nat where
  "search_k = 5"

definition prompt_template :: "pystr \<Rightarrow> pystr \<Rightarrow> pystr" where
  \<open>prompt_template context question =
     lit ''\<newline>You are an expert assistant for NIT Uttarakhand students.\<newline>Use ONLY the provided context to answer.\<newline>If answer not found, reply: "I don't have that information in the document. Please ask something else!"\<newline>\<newline>Context:\<newline>''
     @ context
     @ lit ''\<newline>\<newline>Question:\<newline>''
     @ question
     @ lit ''\<newline>\<newline>Answer:\<newline>''\<close>

text \<open>
  Modelled from the spec: the chain \<open>RetrievalQA\<close> of type "stuff" is library code that
  is not in the repository. The specification (4.4) gives its steps: embed the question
  with the embedding model of the indexer, retrieve the \<open>k\<close> nearest chunks, build the
  prompt from the instruction, the joined texts of the retrieved chunks and the question,
  call the completion service and return its text. A failing embedding call fails the
  invocation with \<open>EmbeddingError\<close>, a failing completion call with \<open>AnswerError\<close>.
\<close>

definition get_relevant_documents ::
  "('v, 'd::linorder) externals \<Rightarrow> 'v index \<Rightarrow> pystr \<Rightarrow> error + pystr list" where
  "get_relevant_documents X db query =
     (case embed X query of
        None \<Rightarrow> Inl EmbeddingError
      | Some qv \<Rightarrow> Inr (similarity_search (distance X) db qv search_k))"

definition qa_prompt :: "('v, 'd::linorder) externals \<Rightarrow> 'v index \<Rightarrow> pystr \<Rightarrow> error + pystr" where
  "qa_prompt X db query =
     (case get_relevant_documents X db query of
        Inl e \<Rightarrow> Inl e
      | Inr docs \<Rightarrow> Inr (prompt_template (join (document_separator X) docs) query))"

definition invoke :: "('v, 'd::linorder) externals \<Rightarrow> 'v index \<Rightarrow> pystr \<Rightarrow> error + pystr" where
  "invoke X db query =
     (case qa_prompt X db query of
        Inl e \<Rightarrow> Inl e
      | Inr prompt \<Rightarrow>
          (case complete X prompt of None \<Rightarrow> Inl AnswerError | Some answer \<Rightarrow> Inr answer))"

text \<open>The fallback sentence that the specification quotes.\<close>

definition fallback_sentence :: pystr where
  "fallback_sentence =
     lit ''I don't have that information in the document. Please ask something else!''"

text \<open>The text of the template around the fallback sentence, up to the context field.\<close>

definition instruction_lead :: pystr where
  \<open>instruction_lead =
     lit ''\<newline>You are an expert assistant for NIT Uttarakhand students.\<newline>Use ONLY the provided context to answer.\<newline>If answer not found, reply: "''\<close>

definition instruction_close :: pystr where
  \<open>instruction_close = lit ''"\<newline>\<newline>Context:\<newline>''\<close>


section \<open>The session and the chat\<close>

text \<open>
  The session state of the program: the cleaned text, the vector index, the number of
  chunks and the chat, a list of triples (sender, message, timestamp). The chain kept
  in the session is fixed by the index it was created from.

  \<^verbatim>\<open>if "chat" not in st.session_state:
    st.session_state.chat = []
  ...
  if question:
      result = st.session_state.qa_chain.invoke({"query": question})
      answer = result["result"]
      timestamp = datetime.now().strftime("%H:%M")
      st.session_state.chat.append(("user", question, timestamp))
      st.session_state.chat.append(("bot", answer, timestamp))\<close>
\<close>

type_synonym turn = "pystr \<times> pystr \<times> pystr"

record 'v session =
  ss_text :: pystr
  ss_db :: "'v index"
  ss_num_chunks :: nat
  ss_chat :: "turn list"

datatype outcome = Done | Raised error

definition process_pdf ::
  "('v, 'd) externals \<Rightarrow> (pystr \<Rightarrow> nat option) \<Rightarrow> unicode_db \<Rightarrow> pystr list
     \<Rightarrow> error + 'v session" where
  "process_pdf X boundary U pages =
     (let text = extract_text U pages
      in case create_faiss_db X boundary text of
           Inl e \<Rightarrow> Inl e
         | Inr (db, n) \<Rightarrow>
             Inr \<lparr>ss_text = text, ss_db = db, ss_num_chunks = n, ss_chat = []\<rparr>)"

text \<open>
  One submitted question; \<open>now\<close> is the clock reading formatted as \<open>%H:%M\<close>. An
  exception leaves the handler before anything is appended.
\<close>

definition ask ::
  "('v, 'd::linorder) externals \<Rightarrow> 'v session \<Rightarrow> pystr \<Rightarrow> pystr \<Rightarrow> outcome \<times> 'v session" where
  "ask X s question now =
     (if question = [] then (Done, s)
      else case invoke X (ss_db s) question of
             Inl e \<Rightarrow> (Raised e, s)
           | Inr answer \<Rightarrow>
               (Done, s\<lparr>ss_chat := ss_chat s
                    @ [(lit ''user'', question, now), (lit ''bot'', answer, now)]\<rparr>))"

text \<open>
  The sessions the program can be in: the chat starts empty (also after "New Session",
  which clears the state), and every run of the question handler is a step.
\<close>

inductive reachable :: "('v, 'd::linorder) externals \<Rightarrow> 'v session \<Rightarrow> bool"
  for X :: "('v, 'd::linorder) externals" where
  start: "ss_chat s = [] \<Longrightarrow> reachable X s"
| asked: "reachable X s \<Longrightarrow> reachable X (snd (ask X s question now))"

text \<open>
  User and assistant turns alternate, starting with a user turn, and the two turns of
  a pair carry the same timestamp.
\<close>

fun alternating :: "turn list \<Rightarrow> bool" where
  "alternating [] = True"
| "alternating [x] = False"
| "alternating ((s1, m1, t1) # (s2, m2, t2) # rest) =
     (s1 = lit ''user'' \<and> s2 = lit ''bot'' \<and> t1 = t2 \<and> alternating rest)"


section \<open>The chat export\<close>

text \<open>
  \<^verbatim>\<open>if not st.session_state.chat:
    st.info(...)
else:
    ...
    chat_text = "\n\n".join([f"{s.upper()} ({t}): {m}" for s, m, t in st.session_state.chat])\<close>
\<close>

fun format_turn :: "unicode_db \<Rightarrow> turn \<Rightarrow> pystr" where
  "format_turn U (s, m, t) = upper U s @ lit '' ('' @ t @ lit ''): '' @ m"

definition chat_text :: "unicode_db \<Rightarrow> turn list \<Rightarrow> pystr" where
  "chat_text U chat = join (lit ''\<newline>\<newline>'') (map (format_turn U) chat)"

definition history_export :: "unicode_db \<Rightarrow> turn list \<Rightarrow> pystr option" where
  "history_export U chat = (if chat = [] then None else Some (chat_text U chat))"

text \<open>
  The lines of a text, as \<open>text.split("\n")\<close> gives them, and a list of lines with one
  blank line between consecutive ones: the measures for the export's layout.
\<close>

definition newline :: pychar where
  "newline = of_char CHR ''\<newline>''"

fun text_lines :: "pystr \<Rightarrow> pystr list" where
  "text_lines [] = [[]]"
| "text_lines (c # cs) =
     (if c = newline then [] # text_lines cs
      else (case text_lines cs of [] \<Rightarrow> [[c]] | l # ls \<Rightarrow> (c # l) # ls))"

fun blank_line_between :: "pystr list \<Rightarrow> pystr list" where
  "blank_line_between [] = []"
| "blank_line_between [x] = [x]"
| "blank_line_between (x # y # ys) = x # [] # blank_line_between (y # ys)"


section \<open>Example inputs\<close>

text \<open>The chat of the specification's scenario, and one whose answer has a line break.\<close>

definition two_turns :: "turn list" where
  "two_turns =
     [(lit ''user'', lit ''Hi'', lit ''10:15''), (lit ''bot'', lit ''Hello'', lit ''10:15'')]"

definition multiline_turns :: "turn list" where
  "multiline_turns =
     [(lit ''user'', lit ''Hi'', lit ''10:15''),
      (lit ''bot'', lit ''Hello\<newline>there'', lit ''10:15'')]"

text \<open>
  Stand-ins for the external services, for running the model: the embedding of a text is
  its length, the distance of two embeddings their difference.
\<close>

definition toy_externals :: "(nat, nat) externals" where
  "toy_externals =
     \<lparr>embed = (\<lambda>s. Some (length s)),
      distance = (\<lambda>a b. if a \<le> b then b - a else a - b),
      document_separator = lit ''\<newline>\<newline>'',
      complete = (\<lambda>prompt. Some (lit ''It says abc.''))\<rparr>"

definition failing_completion :: "(nat, nat) externals" where
  "failing_completion = toy_externals\<lparr>complete := (\<lambda>prompt. None)\<rparr>"

definition one_chunk_session :: "nat session" where
  "one_chunk_session =
     \<lparr>ss_text = lit ''abc'', ss_db = [(lit ''abc'', 3)], ss_num_chunks = 1, ss_chat = two_turns\<rparr>"

definition fresh_session :: "nat session" where
  "fresh_session = one_chunk_session\<lparr>ss_chat := []\<rparr>"

text \<open>A boundary search that finds nothing, and a text of 1001 characters.\<close>

definition no_boundary :: "pystr \<Rightarrow> nat option" where
  "no_boundary window = None"




text \<open>An index of six chunks of different lengths.\<close>

definition six_chunk_index :: "nat index" where
  "six_chunk_index =
     [(lit ''aaaaaaaaa'', 9), (lit ''bb'', 2), (lit ''cccc'', 4), (lit ''d'', 1),
      (lit ''eeeee'', 5), (lit ''fff'', 3)]"


section \<open>Properties of the cleaning filter\<close>

lemma re_sub_char_empty: "re_sub_char m [] s = filter (\<lambda>c. \<not> m c) s"
  by (induction s) simp_all

lemma clean_pattern_allowed:
  "negated_class_matches U clean_pattern c = (\<not> in_allowed_set U c)"
  by (simp add: negated_class_matches_def class_matches_def clean_pattern_def lit_def
      in_allowed_set_def letter_or_digit_def punctuation_marks_def eq_commute)

lemma clean_text_filter: "clean_text U s = filter (in_allowed_set U) s"
  by (simp add: clean_text_def re_sub_char_empty clean_pattern_allowed)

text \<open>
  Claim C4. For every input string the cleaning filter removes exactly the characters
  outside the set of letters, digits, underscore, whitespace and
  \<open>. , ; : ! ? ( ) -\<close>, and keeps every character of that set: the result is the input
  restricted to the allowed set, occurrence by occurrence.
\<close>

theorem clean_text_removes_exactly_disallowed:
  "clean_text U s = filter (in_allowed_set U) s"
  by (rule clean_text_filter)

theorem clean_text_removes_exactly_disallowed_witness:
  "clean_text ascii_db (lit ''a_1 $b#.,;:!?()-@'') = lit ''a_1 b.,;:!?()-''"
  using clean_text_removes_exactly_disallowed [of ascii_db "lit ''a_1 $b#.,;:!?()-@''"]
  by (simp add: lit_def in_allowed_set_def letter_or_digit_def isalnum_def isspace_def
      ascii_isalnum_def ascii_isspace_def punctuation_marks_def)

text \<open>
  Claim C5. Cleaning is idempotent: cleaning a cleaned text changes nothing.
\<close>

theorem clean_text_idempotent: "clean_text U (clean_text U t) = clean_text U t"
  by (simp add: clean_text_filter)

text \<open>
  Claim C9. The cleaned text is a subsequence of the input: it arises by deleting
  characters only, so what is kept stays in its order and nothing is inserted,
  duplicated or replaced.
\<close>

theorem clean_text_subseq: "subseq (clean_text U s) s"
  by (simp add: clean_text_filter)

section \<open>Properties of the chat export\<close>

lemma upper_user: "upper U (lit ''user'') = lit ''USER''"
  by (simp add: upper_def upper_char_def lit_def)

lemma upper_bot: "upper U (lit ''bot'') = lit ''BOT''"
  by (simp add: upper_def upper_char_def lit_def)

lemma text_lines_no_newline: "newline \<notin> set s \<Longrightarrow> text_lines s = [s]"
  by (induction s) auto

lemma text_lines_append:
  "newline \<notin> set s \<Longrightarrow> text_lines (s @ newline # r) = s # text_lines r"
  by (induction s) auto

lemma text_lines_join:
  "xs \<noteq> [] \<Longrightarrow> list_all (\<lambda>x. newline \<notin> set x) xs \<Longrightarrow>
   text_lines (join [newline, newline] xs) = blank_line_between xs"
proof (induction xs rule: blank_line_between.induct)
  case 1
  then show ?case by simp
next
  case (2 x)
  then show ?case by (simp add: text_lines_no_newline)
next
  case (3 x y ys)
  then show ?case by (simp add: text_lines_append)
qed

lemma lit_newlines: "lit ''\<newline>\<newline>'' = [newline, newline]"
  by (simp add: lit_def newline_def)

text \<open>
  Claim C8, as amended. For every non-empty chat whose rendered turns contain no newline
  character, the export is offered, and its lines are the turns, each rendered as
  \<open>ROLE (timestamp): message\<close> with the sender in upper case (\<open>user\<close> as \<open>USER\<close>, \<open>bot\<close>
  as \<open>BOT\<close>), with exactly one blank line between consecutive turns.
\<close>

theorem chat_text_lines:
  assumes "chat \<noteq> []"
    and "list_all (\<lambda>turn. newline \<notin> set (format_turn U turn)) chat"
  shows "history_export U chat = Some (chat_text U chat)
    \<and> text_lines (chat_text U chat) = blank_line_between (map (format_turn U) chat)
    \<and> format_turn U (lit ''user'', m, t) = lit ''USER ('' @ t @ lit ''): '' @ m
    \<and> format_turn U (lit ''bot'', m, t) = lit ''BOT ('' @ t @ lit ''): '' @ m"
proof -
  have "list_all (\<lambda>x. newline \<notin> set x) (map (format_turn U) chat)"
    using assms(2) by (simp add: list_all_iff)
  then have "text_lines (chat_text U chat) = blank_line_between (map (format_turn U) chat)"
    using assms(1) by (simp add: chat_text_def lit_newlines text_lines_join)
  moreover have "lit ''USER ('' = lit ''USER'' @ lit '' (''"
    by (simp add: lit_def)
  moreover have "lit ''BOT ('' = lit ''BOT'' @ lit '' (''"
    by (simp add: lit_def)
  ultimately show ?thesis
    using assms(1) by (simp add: history_export_def upper_user upper_bot)
qed

text \<open>
  The scenario of the specification: the two turns user "Hi", assistant "Hello" export as
  two lines with one blank line between them.
\<close>

theorem chat_text_lines_witness:
  "two_turns \<noteq> []
   \<and> list_all (\<lambda>turn. newline \<notin> set (format_turn ascii_db turn)) two_turns
   \<and> history_export ascii_db two_turns
       = Some (lit ''USER (10:15): Hi\<newline>\<newline>BOT (10:15): Hello'')
   \<and> text_lines (chat_text ascii_db two_turns)
       = [lit ''USER (10:15): Hi'', [], lit ''BOT (10:15): Hello'']"
proof -
  have ne: "two_turns \<noteq> []"
    by (simp add: two_turns_def)
  have nl: "list_all (\<lambda>turn. newline \<notin> set (format_turn ascii_db turn)) two_turns"
    by (simp add: two_turns_def lit_def newline_def upper_def upper_char_def)
  have fm: "map (format_turn ascii_db) two_turns
      = [lit ''USER (10:15): Hi'', lit ''BOT (10:15): Hello'']"
    by (simp add: two_turns_def lit_def upper_def upper_char_def)
  have ct: "chat_text ascii_db two_turns
      = lit ''USER (10:15): Hi\<newline>\<newline>BOT (10:15): Hello''"
    by (simp add: chat_text_def fm) (simp add: lit_def)
  show ?thesis
    using chat_text_lines [OF ne nl, of "[]" "[]"] ne nl
    by (simp add: fm ct)
qed

text \<open>
  Claim C8 as stated fails for a message with a line break in it: the answer
  "Hello", line break, "there" makes the export of two turns four lines long, and the
  fourth is not a rendered turn.
\<close>

theorem chat_text_multiline_counterexample:
  "text_lines (chat_text ascii_db multiline_turns)
     = [lit ''USER (10:15): Hi'', [], lit ''BOT (10:15): Hello'', lit ''there'']
   \<and> text_lines (chat_text ascii_db multiline_turns)
     \<noteq> blank_line_between (map (format_turn ascii_db) multiline_turns)"
  by (simp add: multiline_turns_def chat_text_def lit_def upper_def upper_char_def newline_def)

section \<open>Properties of the question handler\<close>

lemma ask_raises:
  "question \<noteq> [] \<Longrightarrow> invoke X (ss_db s) question = Inl e \<Longrightarrow> ask X s question now = (Raised e, s)"
  by (simp add: ask_def)

lemma ask_answers:
  "question \<noteq> [] \<Longrightarrow> invoke X (ss_db s) question = Inr answer \<Longrightarrow>
   ask X s question now
     = (Done, s\<lparr>ss_chat := ss_chat s @ [(lit ''user'', question, now), (lit ''bot'', answer, now)]\<rparr>)"
  by (simp add: ask_def)

text \<open>
  Claim C7. If the completion call for a question fails, the handler fails with
  \<open>AnswerError\<close> and the session is as it was before the question: the same index, the
  same chat, no turn appended.
\<close>

theorem completion_failure_keeps_state:
  assumes "question \<noteq> []"
    and "qa_prompt X (ss_db s) question = Inr prompt"
    and "complete X prompt = None"
  shows "ask X s question now = (Raised AnswerError, s)
    \<and> ss_db (snd (ask X s question now)) = ss_db s
    \<and> ss_chat (snd (ask X s question now)) = ss_chat s"
proof -
  have "invoke X (ss_db s) question = Inl AnswerError"
    using assms(2,3) by (simp add: invoke_def)
  then show ?thesis
    using assms(1) by (simp add: ask_raises)
qed

lemma toy_search: "similarity_search dist [(c, v)] qv search_k = [c]"
  by (simp add: similarity_search_def nearest_first_def search_k_def)

theorem completion_failure_keeps_state_witness:
  "lit ''Why?'' \<noteq> []
   \<and> qa_prompt failing_completion (ss_db one_chunk_session) (lit ''Why?'')
       = Inr (prompt_template (lit ''abc'') (lit ''Why?''))
   \<and> complete failing_completion (prompt_template (lit ''abc'') (lit ''Why?'')) = None
   \<and> ask failing_completion one_chunk_session (lit ''Why?'') (lit ''10:16'')
       = (Raised AnswerError, one_chunk_session)
   \<and> ss_chat (snd (ask failing_completion one_chunk_session (lit ''Why?'') (lit ''10:16'')))
       = two_turns"
proof -
  have q: "lit ''Why?'' \<noteq> []"
    by (simp add: lit_def)
  have p: "qa_prompt failing_completion (ss_db one_chunk_session) (lit ''Why?'')
      = Inr (prompt_template (lit ''abc'') (lit ''Why?''))"
    by (simp add: qa_prompt_def get_relevant_documents_def failing_completion_def
        toy_externals_def one_chunk_session_def toy_search)
  have c: "complete failing_completion (prompt_template (lit ''abc'') (lit ''Why?'')) = None"
    by (simp add: failing_completion_def)
  have "ss_chat one_chunk_session = two_turns"
    by (simp add: one_chunk_session_def)
  then show ?thesis
    using completion_failure_keeps_state [OF q p c, of "lit ''10:16''"] q p c by simp
qed

lemma alternating_append:
  "alternating xs \<Longrightarrow> alternating (xs @ [(lit ''user'', q, t), (lit ''bot'', a, t)])"
  by (induction xs rule: alternating.induct) simp_all

lemma alternating_even: "alternating xs \<Longrightarrow> even (length xs)"
  by (induction xs rule: alternating.induct) simp_all

lemma ask_chat_cases:
  "ss_chat (snd (ask X s question now)) = ss_chat s
   \<or> (\<exists>answer. ss_chat (snd (ask X s question now))
        = ss_chat s @ [(lit ''user'', question, now), (lit ''bot'', answer, now)])"
  by (simp add: ask_def split: sum.split)

lemma reachable_alternating: "reachable X s \<Longrightarrow> alternating (ss_chat s)"
proof (induction rule: reachable.induct)
  case (start s)
  then show ?case by simp
next
  case (asked s question now)
  then show ?case
    using ask_chat_cases [of X s question now] by (auto simp: alternating_append)
qed

text \<open>
  Claim C10. Every answered question appends exactly two turns, a user turn and then an
  assistant turn with the same timestamp; so in every session the program reaches the
  chat has even length, and user and assistant turns alternate, a user turn first.
\<close>

theorem chat_grows_by_pairs:
  assumes "reachable X s"
  shows "even (length (ss_chat s)) \<and> alternating (ss_chat s)
    \<and> (\<forall>question now answer.
          question \<noteq> [] \<and> invoke X (ss_db s) question = Inr answer \<longrightarrow>
          ask X s question now
            = (Done, s\<lparr>ss_chat := ss_chat s
                 @ [(lit ''user'', question, now), (lit ''bot'', answer, now)]\<rparr>))"
  using assms by (simp add: reachable_alternating alternating_even ask_answers)

theorem chat_grows_by_pairs_witness:
  "reachable toy_externals (snd (ask toy_externals fresh_session (lit ''Why?'') (lit ''10:16'')))
   \<and> ss_chat (snd (ask toy_externals fresh_session (lit ''Why?'') (lit ''10:16'')))
       = [(lit ''user'', lit ''Why?'', lit ''10:16''), (lit ''bot'', lit ''It says abc.'', lit ''10:16'')]
   \<and> even (length (ss_chat (snd (ask toy_externals fresh_session (lit ''Why?'') (lit ''10:16'')))))
   \<and> alternating (ss_chat (snd (ask toy_externals fresh_session (lit ''Why?'') (lit ''10:16''))))"
proof -
  have "reachable toy_externals fresh_session"
    by (rule reachable.start) (simp add: fresh_session_def)
  then have r: "reachable toy_externals
      (snd (ask toy_externals fresh_session (lit ''Why?'') (lit ''10:16'')))"
    by (rule reachable.asked)
  have q: "lit ''Why?'' \<noteq> []"
    by (simp add: lit_def)
  have "invoke toy_externals (ss_db fresh_session) (lit ''Why?'') = Inr (lit ''It says abc.'')"
    by (simp add: invoke_def qa_prompt_def get_relevant_documents_def toy_externals_def
        fresh_session_def one_chunk_session_def toy_search)
  then have "ss_chat (snd (ask toy_externals fresh_session (lit ''Why?'') (lit ''10:16'')))
      = [(lit ''user'', lit ''Why?'', lit ''10:16''), (lit ''bot'', lit ''It says abc.'', lit ''10:16'')]"
    using q by (simp add: ask_answers fresh_session_def)
  then show ?thesis
    using chat_grows_by_pairs [OF r] r by simp
qed

section \<open>Properties of chunking and indexing\<close>

lemma split_text_empty: "split_text boundary [] = []"
  by (simp add: split_text.simps)

lemma split_text_short:
  "t \<noteq> [] \<Longrightarrow> length t \<le> chunk_size \<Longrightarrow> split_text boundary t = [t]"
  by (simp add: split_text.simps)















text \<open>
  Claim C3. A non-empty text of at most 1000 characters gives exactly one chunk, the
  whole text.
\<close>

theorem split_text_short_is_whole:
  assumes "t \<noteq> []" and "length t \<le> 1000"
  shows "split_text boundary t = [t]"
  using assms by (simp add: split_text_short chunk_size_def)

theorem split_text_short_is_whole_witness:
  "lit ''NIT Uttarakhand was established in 2009.'' \<noteq> []
   \<and> length (lit ''NIT Uttarakhand was established in 2009.'') \<le> 1000
   \<and> split_text no_boundary (lit ''NIT Uttarakhand was established in 2009.'')
       = [lit ''NIT Uttarakhand was established in 2009.'']"
proof -
  have n: "lit ''NIT Uttarakhand was established in 2009.'' \<noteq> []"
    by (simp add: lit_def)
  have l: "length (lit ''NIT Uttarakhand was established in 2009.'') \<le> 1000"
    by (simp add: lit_def)
  show ?thesis
    using split_text_short_is_whole [OF n l, of no_boundary] n l by simp
qed

lemma from_documents_empty: "from_documents X [] = Inr []"
  by (simp add: from_documents_def)

text \<open>
  Claim C6. The empty text gives no chunk; indexing no chunk succeeds with an index of
  no entry (and a chunk count of 0); a search in the empty index returns no chunk.
\<close>

theorem empty_text_empty_index:
  "split_text boundary [] = []
   \<and> from_documents X [] = Inr []
   \<and> create_faiss_db X boundary [] = Inr ([], 0)
   \<and> similarity_search dist [] qv k = []"
  by (simp add: split_text_empty from_documents_empty create_faiss_db_def
      similarity_search_def nearest_first_def)

theorem empty_text_empty_index_witness:
  "split_text no_boundary [] = []
   \<and> from_documents toy_externals [] = Inr []
   \<and> create_faiss_db toy_externals no_boundary [] = Inr ([], 0)
   \<and> get_relevant_documents toy_externals [] (lit ''Why?'') = Inr []"
  using empty_text_empty_index
    [of no_boundary toy_externals "distance toy_externals" "length (lit ''Why?'')" search_k]
  by (simp add: get_relevant_documents_def toy_externals_def)

section \<open>Properties of the prompt\<close>

lemma nearest_first_mset: "mset (nearest_first dist qv db) = mset db"
  by (simp add: nearest_first_def)

lemma nearest_first_length: "length (nearest_first dist qv db) = length db"
  by (simp add: nearest_first_def)

lemma nearest_first_sorted:
  "sorted (map (\<lambda>entry. dist qv (snd entry)) (nearest_first dist qv db))"
  by (simp add: nearest_first_def)

lemma sorted_take_drop:
  assumes "sorted (map f ys)" and "a \<in> set (take k ys)" and "b \<in> set (drop k ys)"
  shows "f a \<le> f b"
proof -
  have "sorted (map f (take k ys) @ map f (drop k ys))"
    using assms(1) by (simp flip: map_append)
  then show ?thesis
    using assms(2,3) by (auto simp: sorted_append)
qed

lemma prompt_template_instruction:
  "prompt_template context question
     = instruction_lead @ fallback_sentence @ instruction_close @ context
         @ lit ''\<newline>\<newline>Question:\<newline>'' @ question @ lit ''\<newline>\<newline>Answer:\<newline>''"
  by (simp add: prompt_template_def instruction_lead_def instruction_close_def
      fallback_sentence_def lit_def)

text \<open>
  Claim C1, as amended. For every index and every question whose embedding succeeds, the
  prompt passed to the completion service is exactly: the instruction with the fallback
  sentence in it word for word, the joined texts of the first five entries of the index
  in order of distance to the question, and the question. These are at most five
  chunks: all of them when the index has five or fewer, exactly five when it has more,
  so that the other chunks are then left out; no chunk left out is nearer to the
  question than a chunk in the prompt.
\<close>

theorem prompt_has_nearest_chunks:
  assumes "embed X question = Some qv"
  shows "qa_prompt X db question
      = Inr (instruction_lead @ fallback_sentence @ instruction_close
               @ join (document_separator X)
                   (map fst (take 5 (nearest_first (distance X) qv db)))
               @ lit ''\<newline>\<newline>Question:\<newline>'' @ question
               @ lit ''\<newline>\<newline>Answer:\<newline>'')
    \<and> mset (take 5 (nearest_first (distance X) qv db)
             @ drop 5 (nearest_first (distance X) qv db)) = mset db
    \<and> length (take 5 (nearest_first (distance X) qv db)) = min 5 (length db)
    \<and> length (drop 5 (nearest_first (distance X) qv db)) = length db - 5
    \<and> (\<forall>a\<in>set (take 5 (nearest_first (distance X) qv db)).
         \<forall>b\<in>set (drop 5 (nearest_first (distance X) qv db)).
           distance X qv (snd a) \<le> distance X qv (snd b))"
proof -
  define ys where "ys = nearest_first (distance X) qv db"
  have "qa_prompt X db question
      = Inr (prompt_template (join (document_separator X) (map fst (take 5 ys))) question)"
    using assms
    by (simp add: qa_prompt_def get_relevant_documents_def similarity_search_def search_k_def ys_def)
  then have p: "qa_prompt X db question
      = Inr (instruction_lead @ fallback_sentence @ instruction_close
               @ join (document_separator X) (map fst (take 5 ys))
               @ lit ''\<newline>\<newline>Question:\<newline>'' @ question
               @ lit ''\<newline>\<newline>Answer:\<newline>'')"
    by (simp only: prompt_template_instruction)
  have m: "mset (take 5 ys @ drop 5 ys) = mset db"
    by (simp add: ys_def nearest_first_mset)
  have l: "length (take 5 ys) = min 5 (length db)" "length (drop 5 ys) = length db - 5"
    by (simp_all add: ys_def nearest_first_length)
  have s: "\<forall>a\<in>set (take 5 ys). \<forall>b\<in>set (drop 5 ys).
      distance X qv (snd a) \<le> distance X qv (snd b)"
    using sorted_take_drop [OF nearest_first_sorted [of "distance X" qv db]]
    by (auto simp: ys_def)
  show ?thesis
    using p m l s unfolding ys_def by blast
qed

lemma six_chunk_nearest:
  "nearest_first (distance toy_externals) 4 six_chunk_index
     = [(lit ''cccc'', 4), (lit ''eeeee'', 5), (lit ''fff'', 3), (lit ''bb'', 2), (lit ''d'', 1),
        (lit ''aaaaaaaaa'', 9)]"
  by (simp add: nearest_first_def six_chunk_index_def toy_externals_def)

theorem prompt_has_nearest_chunks_witness:
  "embed toy_externals (lit ''Why?'') = Some 4
   \<and> length six_chunk_index = 6
   \<and> take 5 (nearest_first (distance toy_externals) 4 six_chunk_index)
       = [(lit ''cccc'', 4), (lit ''eeeee'', 5), (lit ''fff'', 3), (lit ''bb'', 2), (lit ''d'', 1)]
   \<and> drop 5 (nearest_first (distance toy_externals) 4 six_chunk_index)
       = [(lit ''aaaaaaaaa'', 9)]
   \<and> qa_prompt toy_externals six_chunk_index (lit ''Why?'')
       = Inr (instruction_lead @ fallback_sentence @ instruction_close
                @ join (lit ''\<newline>\<newline>'')
                    [lit ''cccc'', lit ''eeeee'', lit ''fff'', lit ''bb'', lit ''d'']
                @ lit ''\<newline>\<newline>Question:\<newline>'' @ lit ''Why?''
                @ lit ''\<newline>\<newline>Answer:\<newline>'')"
proof -
  have e: "embed toy_externals (lit ''Why?'') = Some 4"
    by (simp add: toy_externals_def lit_def)
  have d: "document_separator toy_externals = lit ''\<newline>\<newline>''"
    by (simp add: toy_externals_def)
  have n: "length six_chunk_index = 6"
    by (simp add: six_chunk_index_def)
  show ?thesis
    using prompt_has_nearest_chunks [OF e, of six_chunk_index] e n
    by (simp add: six_chunk_nearest d)
qed

text \<open>
  Claim C1 as stated fails for a document of one chunk: the search for the five nearest
  chunks returns that chunk, so the context of the prompt is all the chunks of the index.
\<close>

theorem prompt_has_all_chunks_counterexample:
  "similarity_search (distance toy_externals) (ss_db one_chunk_session) 4 search_k
     = map fst (ss_db one_chunk_session)
   \<and> qa_prompt toy_externals (ss_db one_chunk_session) (lit ''Why?'')
     = Inr (prompt_template
         (join (document_separator toy_externals) (map fst (ss_db one_chunk_session)))
         (lit ''Why?''))"
  by (simp add: qa_prompt_def get_relevant_documents_def toy_search one_chunk_session_def
      toy_externals_def)

end
